theory Spec2Isabelle
  imports Complex_Main
begin

section \<open>Data model (types.ts)\<close>

text \<open>
  The attendance status is a string enum with five members. \<open>calculateStats\<close>
  names four of them and sends whatever is left to \<open>pending\<close>.
\<close>

datatype AttendanceStatus = PENDING | ATTENDED | ABSENT | SUSPENDED | EXCUSED

text \<open>
  A date-typed field at run time. The declared type is \<open>Date\<close>, but after
  \<open>JSON.parse\<close> such a field holds what \<open>Date.prototype.toJSON\<close> wrote: the ISO string
  of a valid date, or \<open>null\<close> for an invalid one. A valid \<open>Date\<close> is its time value
  (milliseconds since the epoch); an ISO string is represented by the time value
  it denotes, which is all that \<open>new Date(string)\<close> reads from it.
\<close>

datatype DateValue = DateObj int | InvalidDate | IsoString int | JsonNull

text \<open>
  \<open>CalendarEvent\<close>: optional fields (\<open>location?\<close>, ...) are options, \<open>None\<close> being
  \<open>undefined\<close>. The field \<open>end\<close> is written \<open>end'\<close>.
\<close>

record CalendarEvent =
  id :: string
  uid :: string
  title :: string
  start :: DateValue
  end' :: DateValue
  location :: "string option"
  description :: "string option"
  status :: AttendanceStatus
  overrideTitle :: "string option"
  isOverride :: "bool option"
  recurrenceId :: "string option"
  originalDate :: "DateValue option"

text \<open>
  \<open>Stats\<close>: every field is a JavaScript number. The six counters and
  \<open>neededFor75\<close> only ever hold integers. \<open>percentage\<close> is a double in the code, the
  result of a rounded division and a rounded multiplication; the field here holds
  the exact value of that expression, of which the code's number is the rounding.
  It is therefore compared by order and against the thresholds 0 and 75 only, and
  no statement gives the digits of the code's number.
\<close>

record Stats =
  total :: int
  attended :: int
  absent :: int
  suspended :: int
  excused :: int
  pending :: int
  percentage :: rat
  neededFor75 :: int

section \<open>Statistics (calculateStats)\<close>

text \<open>
  The five local counters that the \<open>forEach\<close> callback increments. (\<open>total\<close> is
  assigned only after the loop.)
\<close>

record Counters =
  c_attended :: int
  c_absent :: int
  c_suspended :: int
  c_excused :: int
  c_pending :: int

definition zeroCounters :: Counters where
  "zeroCounters =
     \<lparr>c_attended = 0, c_absent = 0, c_suspended = 0, c_excused = 0, c_pending = 0\<rparr>"

text \<open>The body of the \<open>forEach\<close> callback, with its two early returns.\<close>

definition countEvent :: "Counters \<Rightarrow> CalendarEvent \<Rightarrow> Counters" where
  "countEvent c e =
     (if status e = SUSPENDED then c\<lparr>c_suspended := c_suspended c + 1\<rparr>
      else if status e = EXCUSED then c\<lparr>c_excused := c_excused c + 1\<rparr>
      else if status e = ATTENDED then c\<lparr>c_attended := c_attended c + 1\<rparr>
      else if status e = ABSENT then c\<lparr>c_absent := c_absent c + 1\<rparr>
      else c\<lparr>c_pending := c_pending c + 1\<rparr>)"

fun forEachCount :: "Counters \<Rightarrow> CalendarEvent list \<Rightarrow> Counters" where
  "forEachCount c [] = c"
| "forEachCount c (e # es) = forEachCount (countEvent c e) es"

definition calculateStats :: "CalendarEvent list \<Rightarrow> Stats" where
  "calculateStats filteredEvents =
     (let c = forEachCount zeroCounters filteredEvents;
          total = c_attended c + c_absent c;
          percentage = (if total = 0 then 0
                        else (of_int (c_attended c) / of_int total) * 100);
          neededRaw = (3 * total) - (4 * c_attended c);
          neededFor75 = (if neededRaw > 0 then neededRaw else 0)
      in \<lparr>total = total, attended = c_attended c, absent = c_absent c,
          suspended = c_suspended c, excused = c_excused c, pending = c_pending c,
          percentage = percentage, neededFor75 = neededFor75\<rparr>)"

text \<open>The number of occurrences of a list that carry a given status.\<close>

definition countStatus :: "AttendanceStatus \<Rightarrow> CalendarEvent list \<Rightarrow> int" where
  "countStatus s es = int (length (filter (\<lambda>e. status e = s) es))"

section \<open>Persistence (the load and save effects)\<close>

text \<open>
  \<open>JSON.stringify\<close> calls \<open>toJSON\<close> on a \<open>Date\<close>: a valid date becomes its ISO
  string, an invalid one \<open>null\<close>. A string or \<open>null\<close> is written as it is.
  \<open>toJSON v\<close> is what \<open>JSON.parse\<close> reads back for a field that held \<open>v\<close>.
\<close>

fun toJSON :: "DateValue \<Rightarrow> DateValue" where
  "toJSON (DateObj t) = IsoString t"
| "toJSON InvalidDate = JsonNull"
| "toJSON (IsoString t) = IsoString t"
| "toJSON JsonNull = JsonNull"

text \<open>
  \<open>new Date(v)\<close>: a date is copied, an ISO string is parsed to the date it denotes,
  \<open>null\<close> converts to the number 0, the epoch.
\<close>

fun newDate :: "DateValue \<Rightarrow> DateValue" where
  "newDate (DateObj t) = DateObj t"
| "newDate InvalidDate = InvalidDate"
| "newDate (IsoString t) = DateObj t"
| "newDate JsonNull = DateObj 0"

text \<open>
  One record after \<open>JSON.stringify\<close> and \<open>JSON.parse\<close>. Strings, booleans and the
  status string come back unchanged; a property that is \<open>undefined\<close> is left out and
  is \<open>undefined\<close> again on reading; the three date-typed fields go through \<open>toJSON\<close>.
\<close>

definition jsonRecord :: "CalendarEvent \<Rightarrow> CalendarEvent" where
  "jsonRecord e =
     e\<lparr>start := toJSON (start e), end' := toJSON (end' e),
       originalDate := map_option toJSON (originalDate e)\<rparr>"

text \<open>
  The item \<open>attenda_events\<close> of the local storage, by what \<open>JSON.parse\<close> makes of it:
  the array of records it encodes, or a text on which \<open>JSON.parse\<close> (or the
  \<open>parsed.map\<close> after it) throws.
\<close>

datatype StoredItem = Json "CalendarEvent list" | Corrupt

text \<open>The save effect: \<open>localStorage.setItem('attenda_events', JSON.stringify(events))\<close>.\<close>

definition saveEvents :: "CalendarEvent list \<Rightarrow> StoredItem option" where
  "saveEvents events = Some (Json (map jsonRecord events))"

text \<open>The \<open>parsed.map\<close> of the load effect: only \<open>start\<close> and \<open>end\<close> are rebuilt.\<close>

definition fixed :: "CalendarEvent list \<Rightarrow> CalendarEvent list" where
  "fixed parsed =
     map (\<lambda>e. e\<lparr>start := newDate (start e), end' := newDate (end' e)\<rparr>) parsed"

text \<open>
  The load effect, run once on mount when the events are still the initial \<open>[]\<close>:
  no item, or an item that throws in \<open>JSON.parse\<close>, leaves them so.
\<close>

definition loadEvents :: "StoredItem option \<Rightarrow> CalendarEvent list" where
  "loadEvents saved =
     (case saved of
        None \<Rightarrow> []
      | Some Corrupt \<Rightarrow> []
      | Some (Json parsed) \<Rightarrow> fixed parsed)"

section \<open>The attendance store (handlers of the component)\<close>

text \<open>The part of the component state that the handlers write.\<close>

record AppState =
  events :: "CalendarEvent list"
  selectedEvent :: "CalendarEvent option"
  showImport :: bool
  filterTitle :: string

text \<open>
  \<open>handleFileUpload\<close>: \<open>file\<close> is the text of the chosen file, \<open>None\<close> when no file was
  chosen. \<open>parseICS\<close> lives in \<open>services/icsParser\<close> and is a parameter here.
\<close>

definition handleFileUpload ::
  "(string \<Rightarrow> CalendarEvent list) \<Rightarrow> string option \<Rightarrow> AppState \<Rightarrow> AppState" where
  "handleFileUpload parseICS file s =
     (case file of
        None \<Rightarrow> s
      | Some content \<Rightarrow>
          (let parsedEvents = parseICS content
           in s\<lparr>events := events s @ parsedEvents, showImport := False\<rparr>))"

text \<open>\<open>handleClearData\<close>: \<open>confirmed\<close> is the answer of \<open>window.confirm\<close>.\<close>

definition handleClearData :: "bool \<Rightarrow> AppState \<Rightarrow> AppState" where
  "handleClearData confirmed s = (if confirmed then s\<lparr>events := []\<rparr> else s)"

definition handleUpdateEvent :: "CalendarEvent \<Rightarrow> AppState \<Rightarrow> AppState" where
  "handleUpdateEvent updated s =
     s\<lparr>events := map (\<lambda>e. if id e = id updated then updated else e) (events s),
       selectedEvent := None\<rparr>"

section \<open>Display of an occurrence\<close>

text \<open>
  \<open>event.isOverride && event.overrideTitle ? event.overrideTitle : event.title\<close>.
  The condition is JavaScript truthiness: \<open>undefined\<close>, \<open>false\<close> and the empty string
  are falsy.
\<close>

definition displayTitle :: "CalendarEvent \<Rightarrow> string" where
  "displayTitle event =
     (case (isOverride event, overrideTitle event) of
        (Some True, Some t) \<Rightarrow> (if t \<noteq> [] then t else title event)
      | _ \<Rightarrow> title event)"

section \<open>Calendar projector\<close>

text \<open>
  Modelled from the spec: \<open>generateCalendarDays\<close> (the spec's \<open>projectMonth\<close>) lives in
  \<open>utils/dateUtils\<close>, which is not among the source files. The spec gives a grid that
  starts on the Sunday on or before the 1st of the reference month and ends on the
  Saturday on or after its last day; a day carries a calendar date and a flag for
  whether it belongs to the reference month.

  A calendar date is its day number, the days since 1970-01-01 in the proleptic
  Gregorian calendar; the reference date is given by year, month (1 to 12) and day.
\<close>

record RefDate =
  year :: int
  month :: int
  day :: int

record Day =
  date :: int
  inMonth :: bool

definition isLeapYear :: "int \<Rightarrow> bool" where
  "isLeapYear y = (y mod 4 = 0 \<and> (y mod 100 \<noteq> 0 \<or> y mod 400 = 0))"

definition daysInMonth :: "int \<Rightarrow> int \<Rightarrow> int" where
  "daysInMonth y m =
     (if m = 2 then (if isLeapYear y then 29 else 28)
      else if m = 4 \<or> m = 6 \<or> m = 9 \<or> m = 11 then 30
      else 31)"

text \<open>The day number of a civil date, counting years from March.\<close>

definition daysFromCivil :: "int \<Rightarrow> int \<Rightarrow> int \<Rightarrow> int" where
  "daysFromCivil y m d =
     (let y' = (if m \<le> 2 then y - 1 else y);
          era = y' div 400;
          yoe = y' - era * 400;
          mp = (if m > 2 then m - 3 else m + 9);
          doy = (153 * mp + 2) div 5 + d - 1;
          doe = yoe * 365 + yoe div 4 - yoe div 100 + doy
      in era * 146097 + doe - 719468)"

text \<open>Day of the week of a day number, 0 for Sunday to 6 for Saturday (day 0 is a Thursday).\<close>

definition weekday :: "int \<Rightarrow> int" where
  "weekday n = (n + 4) mod 7"

definition startOfMonth :: "RefDate \<Rightarrow> int" where
  "startOfMonth r = daysFromCivil (year r) (month r) 1"

definition endOfMonth :: "RefDate \<Rightarrow> int" where
  "endOfMonth r = daysFromCivil (year r) (month r) (daysInMonth (year r) (month r))"

definition startOfWeek :: "int \<Rightarrow> int" where
  "startOfWeek n = n - weekday n"

definition endOfWeek :: "int \<Rightarrow> int" where
  "endOfWeek n = n + (6 - weekday n)"

definition projectMonth :: "RefDate \<Rightarrow> Day list" where
  "projectMonth r =
     map (\<lambda>n. \<lparr>date = n, inMonth = (startOfMonth r \<le> n \<and> n \<le> endOfMonth r)\<rparr>)
       [startOfWeek (startOfMonth r) .. endOfWeek (endOfMonth r)]"

section \<open>Example data\<close>

text \<open>An occurrence as the parser emits it, with a given status.\<close>

definition sampleEvent :: "AttendanceStatus \<Rightarrow> CalendarEvent" where
  "sampleEvent s =
     \<lparr>id = ''e1'', uid = ''u1'', title = ''Algebra'',
      start = DateObj 1700000000000, end' = DateObj 1700003600000,
      location = None, description = None, status = s,
      overrideTitle = None, isOverride = None, recurrenceId = None,
      originalDate = None\<rparr>"

text \<open>Five occurrences of one subject, and a list where every class was called off.\<close>

definition sampleTerm :: "CalendarEvent list" where
  "sampleTerm = map sampleEvent [ATTENDED, ABSENT, ABSENT, SUSPENDED, PENDING]"

definition sampleCancelled :: "CalendarEvent list" where
  "sampleCancelled = map sampleEvent [SUSPENDED, EXCUSED]"

text \<open>An instance of a recurring event: it carries \<open>recurrenceId\<close> and \<open>originalDate\<close>.\<close>

definition recurringEvent :: CalendarEvent where
  "recurringEvent =
     (sampleEvent PENDING)\<lparr>recurrenceId := Some ''r1'',
                            originalDate := Some (DateObj 1700000000000)\<rparr>"

text \<open>An override whose replacement title is the empty string.\<close>

definition emptyOverrideEvent :: CalendarEvent where
  "emptyOverrideEvent =
     (sampleEvent PENDING)\<lparr>overrideTitle := Some [], isOverride := Some True\<rparr>"

text \<open>A store holding two occurrences, with the import panel open.\<close>

definition sampleState :: AppState where
  "sampleState =
     \<lparr>events = [sampleEvent PENDING, (sampleEvent PENDING)\<lparr>id := ''e2''\<rparr>],
      selectedEvent = None, showImport = True, filterTitle = ''All''\<rparr>"

section \<open>Properties of the statistics\<close>

lemma countEvent_fields:
  "c_attended (countEvent c e) = c_attended c + (if status e = ATTENDED then 1 else 0)"
  "c_absent (countEvent c e) = c_absent c + (if status e = ABSENT then 1 else 0)"
  "c_suspended (countEvent c e) = c_suspended c + (if status e = SUSPENDED then 1 else 0)"
  "c_excused (countEvent c e) = c_excused c + (if status e = EXCUSED then 1 else 0)"
  "c_pending (countEvent c e) =
     c_pending c + (if status e \<notin> {SUSPENDED, EXCUSED, ATTENDED, ABSENT} then 1 else 0)"
  by (simp_all add: countEvent_def)

lemma forEachCount_attended:
  "c_attended (forEachCount c es) = c_attended c + countStatus ATTENDED es"
  by (induction es arbitrary: c) (simp_all add: countStatus_def countEvent_fields)

lemma forEachCount_absent:
  "c_absent (forEachCount c es) = c_absent c + countStatus ABSENT es"
  by (induction es arbitrary: c) (simp_all add: countStatus_def countEvent_fields)

lemma forEachCount_suspended:
  "c_suspended (forEachCount c es) = c_suspended c + countStatus SUSPENDED es"
  by (induction es arbitrary: c) (simp_all add: countStatus_def countEvent_fields)

lemma forEachCount_excused:
  "c_excused (forEachCount c es) = c_excused c + countStatus EXCUSED es"
  by (induction es arbitrary: c) (simp_all add: countStatus_def countEvent_fields)

lemma forEachCount_pending:
  "c_pending (forEachCount c es) =
     c_pending c
     + int (length (filter (\<lambda>e. status e \<notin> {SUSPENDED, EXCUSED, ATTENDED, ABSENT}) es))"
  by (induction es arbitrary: c) (simp_all add: countEvent_fields)


lemma filter_status_partition:
  "countStatus SUSPENDED es + countStatus EXCUSED es + countStatus ATTENDED es
     + countStatus ABSENT es
     + int (length (filter (\<lambda>e. status e \<notin> {SUSPENDED, EXCUSED, ATTENDED, ABSENT}) es))
   = int (length es)"
  by (induction es) (auto simp: countStatus_def)

lemma countStatus_bounds: "0 \<le> countStatus s es"
  by (simp add: countStatus_def)

lemma countStatus_snoc:
  "countStatus s (es @ [e]) = countStatus s es + (if status e = s then 1 else 0)"
  by (simp add: countStatus_def)

lemma stats_fields:
  "attended (calculateStats es) = countStatus ATTENDED es"
  "absent (calculateStats es) = countStatus ABSENT es"
  "suspended (calculateStats es) = countStatus SUSPENDED es"
  "excused (calculateStats es) = countStatus EXCUSED es"
  "pending (calculateStats es) =
     int (length (filter (\<lambda>e. status e \<notin> {SUSPENDED, EXCUSED, ATTENDED, ABSENT}) es))"
  "total (calculateStats es) = countStatus ATTENDED es + countStatus ABSENT es"
  by (simp_all add: calculateStats_def Let_def zeroCounters_def
        forEachCount_attended forEachCount_absent forEachCount_suspended
        forEachCount_excused forEachCount_pending)

lemma stats_percentage:
  "percentage (calculateStats es) =
     (if total (calculateStats es) = 0 then 0
      else of_int (attended (calculateStats es)) / of_int (total (calculateStats es)) * 100)"
  by (simp add: calculateStats_def Let_def)

lemma stats_neededFor75:
  "neededFor75 (calculateStats es) =
     max 0 (3 * total (calculateStats es) - 4 * attended (calculateStats es))"
  by (simp add: calculateStats_def Let_def max_def)

lemma stats_attended_range:
  "0 \<le> attended (calculateStats es)"
  "attended (calculateStats es) \<le> total (calculateStats es)"
  by (simp_all add: stats_fields countStatus_bounds)

text \<open>The two sample lists, evaluated.\<close>

lemma sampleTerm_stats:
  "total (calculateStats sampleTerm) = 3"
  "attended (calculateStats sampleTerm) = 1"
  "absent (calculateStats sampleTerm) = 2"
  "suspended (calculateStats sampleTerm) = 1"
  "excused (calculateStats sampleTerm) = 0"
  "pending (calculateStats sampleTerm) = 1"
  "neededFor75 (calculateStats sampleTerm) = 5"
  "percentage (calculateStats sampleTerm) < 75"
  by (simp_all add: sampleTerm_def calculateStats_def zeroCounters_def countEvent_def
        sampleEvent_def Let_def)

lemma sampleCancelled_stats:
  "calculateStats sampleCancelled =
     \<lparr>total = 0, attended = 0, absent = 0, suspended = 1, excused = 1, pending = 0,
      percentage = 0, neededFor75 = 0\<rparr>"
  by (simp add: sampleCancelled_def calculateStats_def zeroCounters_def countEvent_def
        sampleEvent_def Let_def)

text \<open>
  Claim C1. For every list of occurrences, each of the five counters of
  \<open>calculateStats\<close> is the number of occurrences with its status: SUSPENDED, EXCUSED,
  ATTENDED and ABSENT go to their own counter, and every occurrence with none of
  these four statuses (PENDING) goes to \<open>pending\<close>. The five counters add up to the
  length of the list, so each occurrence is counted exactly once. Moreover
  \<open>total = attended + absent\<close> and \<open>total \<le> length\<close>.
\<close>

theorem calculateStats_classification:
  "suspended (calculateStats es) = countStatus SUSPENDED es \<and>
   excused (calculateStats es) = countStatus EXCUSED es \<and>
   attended (calculateStats es) = countStatus ATTENDED es \<and>
   absent (calculateStats es) = countStatus ABSENT es \<and>
   pending (calculateStats es) =
     int (length (filter (\<lambda>e. status e \<notin> {SUSPENDED, EXCUSED, ATTENDED, ABSENT}) es)) \<and>
   suspended (calculateStats es) + excused (calculateStats es)
     + attended (calculateStats es) + absent (calculateStats es)
     + pending (calculateStats es) = int (length es) \<and>
   total (calculateStats es) = attended (calculateStats es) + absent (calculateStats es) \<and>
   total (calculateStats es) \<le> int (length es)"
proof -
  have part: "countStatus SUSPENDED es + countStatus EXCUSED es + countStatus ATTENDED es
     + countStatus ABSENT es
     + int (length (filter (\<lambda>e. status e \<notin> {SUSPENDED, EXCUSED, ATTENDED, ABSENT}) es))
   = int (length es)"
    by (rule filter_status_partition)
  have "0 \<le> countStatus SUSPENDED es" "0 \<le> countStatus EXCUSED es"
    by (rule countStatus_bounds)+
  with part have le: "countStatus ATTENDED es + countStatus ABSENT es \<le> int (length es)"
    by linarith
  show ?thesis
    using part le by (simp add: stats_fields)
qed

theorem calculateStats_classification_witness:
  "suspended (calculateStats sampleTerm) = 1 \<and>
   excused (calculateStats sampleTerm) = 0 \<and>
   attended (calculateStats sampleTerm) = 1 \<and>
   absent (calculateStats sampleTerm) = 2 \<and>
   pending (calculateStats sampleTerm) = 1 \<and>
   total (calculateStats sampleTerm) = 3 \<and>
   total (calculateStats sampleTerm) \<le> int (length sampleTerm)"
  using calculateStats_classification [of sampleTerm]
  by (simp add: sampleTerm_stats)

text \<open>
  For integers \<open>a\<close>, \<open>t\<close>, \<open>x\<close> with a positive denominator, the quotient
  \<open>(a + x) / (t + x)\<close> reaches three quarters exactly when \<open>x \<ge> 3 t - 4 a\<close>.
\<close>

lemma ratio_ge_iff:
  fixes a t x :: int
  assumes "0 < t + x"
  shows "((3::rat) / 4 \<le> of_int (a + x) / of_int (t + x)) \<longleftrightarrow> 3 * t - 4 * a \<le> x"
proof -
  have pos: "(0::rat) < of_int (t + x)" using assms by simp
  have "((3::rat) / 4 \<le> of_int (a + x) / of_int (t + x))
          \<longleftrightarrow> (3::rat) / 4 * of_int (t + x) \<le> of_int (a + x)"
    using pos by (simp only: pos_le_divide_eq)
  also have "\<dots> \<longleftrightarrow> (3::rat) * of_int (t + x) \<le> 4 * of_int (a + x)"
    by auto
  also have "\<dots> \<longleftrightarrow> (of_int (3 * (t + x)) :: rat) \<le> of_int (4 * (a + x))"
    by (simp only: of_int_mult of_int_numeral)
  also have "\<dots> \<longleftrightarrow> 3 * (t + x) \<le> 4 * (a + x)"
    by (simp only: of_int_le_iff)
  also have "\<dots> \<longleftrightarrow> 3 * t - 4 * a \<le> x" by auto
  finally show ?thesis .
qed

text \<open>
  Claim C2. For every list of occurrences, \<open>neededFor75\<close> is
  \<open>max 0 (3 * total - 4 * attended)\<close>. When it is positive,
  \<open>(attended + neededFor75) / (total + neededFor75)\<close> is at least 0.75; when
  \<open>neededFor75 - 1 \<ge> 0\<close> and \<open>total + neededFor75 - 1 > 0\<close>, one attendance fewer
  stays below 0.75. Among all \<open>x \<ge> 0\<close> with \<open>total + x > 0\<close>, the quotient
  \<open>(attended + x) / (total + x)\<close> reaches 0.75 exactly from \<open>x = neededFor75\<close> on, so
  \<open>neededFor75\<close> is the least number of further consecutive attendances that does.
\<close>

theorem neededFor75_minimal:
  "neededFor75 (calculateStats es)
     = max 0 (3 * total (calculateStats es) - 4 * attended (calculateStats es)) \<and>
   (0 < neededFor75 (calculateStats es) \<longrightarrow>
      (3::rat) / 4 \<le> of_int (attended (calculateStats es) + neededFor75 (calculateStats es))
                    / of_int (total (calculateStats es) + neededFor75 (calculateStats es))) \<and>
   (0 \<le> neededFor75 (calculateStats es) - 1 \<and>
    0 < total (calculateStats es) + neededFor75 (calculateStats es) - 1 \<longrightarrow>
      of_int (attended (calculateStats es) + neededFor75 (calculateStats es) - 1)
        / of_int (total (calculateStats es) + neededFor75 (calculateStats es) - 1)
        < (3::rat) / 4) \<and>
   (\<forall>x. 0 \<le> x \<and> 0 < total (calculateStats es) + x \<longrightarrow>
      ((3::rat) / 4 \<le> of_int (attended (calculateStats es) + x)
                       / of_int (total (calculateStats es) + x)
       \<longleftrightarrow> neededFor75 (calculateStats es) \<le> x))"
proof -
  define t where "t = total (calculateStats es)"
  define a where "a = attended (calculateStats es)"
  define n where "n = neededFor75 (calculateStats es)"
  have n: "n = max 0 (3 * t - 4 * a)"
    unfolding n_def t_def a_def by (rule stats_neededFor75)
  have at: "0 \<le> a" "a \<le> t"
    unfolding a_def t_def by (rule stats_attended_range)+
  have p1: "0 < n \<longrightarrow> (3::rat) / 4 \<le> of_int (a + n) / of_int (t + n)"
  proof
    assume "0 < n"
    then have "0 < t + n" "3 * t - 4 * a \<le> n" using at n by linarith+
    then show "(3::rat) / 4 \<le> of_int (a + n) / of_int (t + n)"
      by (simp only: ratio_ge_iff)
  qed
  have p2: "0 \<le> n - 1 \<and> 0 < t + n - 1 \<longrightarrow>
              of_int (a + n - 1) / of_int (t + n - 1) < (3::rat) / 4"
  proof
    assume h: "0 \<le> n - 1 \<and> 0 < t + n - 1"
    then have pos: "0 < t + (n - 1)" and lt: "\<not> 3 * t - 4 * a \<le> n - 1"
      using n by linarith+
    from lt have "\<not> (3::rat) / 4 \<le> of_int (a + (n - 1)) / of_int (t + (n - 1))"
      using ratio_ge_iff [OF pos, of a] by blast
    then show "of_int (a + n - 1) / of_int (t + n - 1) < (3::rat) / 4"
      by (simp add: not_le algebra_simps)
  qed
  have p3: "\<forall>x. 0 \<le> x \<and> 0 < t + x \<longrightarrow>
              ((3::rat) / 4 \<le> of_int (a + x) / of_int (t + x) \<longleftrightarrow> n \<le> x)"
  proof (intro allI impI)
    fix x :: int
    assume h: "0 \<le> x \<and> 0 < t + x"
    then have "((3::rat) / 4 \<le> of_int (a + x) / of_int (t + x)) \<longleftrightarrow> 3 * t - 4 * a \<le> x"
      by (simp only: ratio_ge_iff)
    also have "\<dots> \<longleftrightarrow> n \<le> x" using h n by linarith
    finally show "(3::rat) / 4 \<le> of_int (a + x) / of_int (t + x) \<longleftrightarrow> n \<le> x" .
  qed
  show ?thesis
    using n p1 p2 p3 unfolding t_def a_def n_def by blast
qed

theorem neededFor75_minimal_witness:
  "neededFor75 (calculateStats sampleTerm) = 5 \<and>
   0 < neededFor75 (calculateStats sampleTerm) \<and>
   (3::rat) / 4 \<le> of_int (attended (calculateStats sampleTerm)
                             + neededFor75 (calculateStats sampleTerm))
                    / of_int (total (calculateStats sampleTerm)
                               + neededFor75 (calculateStats sampleTerm)) \<and>
   0 \<le> neededFor75 (calculateStats sampleTerm) - 1 \<and>
   0 < total (calculateStats sampleTerm) + neededFor75 (calculateStats sampleTerm) - 1 \<and>
   of_int (attended (calculateStats sampleTerm) + neededFor75 (calculateStats sampleTerm) - 1)
     / of_int (total (calculateStats sampleTerm) + neededFor75 (calculateStats sampleTerm) - 1)
     < (3::rat) / 4 \<and>
   (0::int) \<le> 4 \<and> 0 < total (calculateStats sampleTerm) + 4 \<and>
   \<not> (3::rat) / 4 \<le> of_int (attended (calculateStats sampleTerm) + 4)
                        / of_int (total (calculateStats sampleTerm) + 4)"
  using neededFor75_minimal [of sampleTerm]
  by (simp add: sampleTerm_stats)

text \<open>
  One more attendance does not lower a quotient \<open>a / t\<close> with \<open>a \<le> t\<close>; one more
  absence does not raise it.
\<close>

lemma ratio_attend_step:
  fixes a t :: int
  assumes "a \<le> t" "0 < t"
  shows "(of_int a / of_int t :: rat) \<le> of_int (a + 1) / of_int (t + 1)"
proof -
  have "a * (t + 1) \<le> (a + 1) * t"
    using assms by (simp add: algebra_simps)
  then have "(of_int (a * (t + 1)) :: rat) \<le> of_int ((a + 1) * t)"
    by (simp only: of_int_le_iff)
  then have "(of_int a :: rat) * of_int (t + 1) \<le> of_int (a + 1) * of_int t"
    by (simp only: of_int_mult)
  moreover have "(0::rat) < of_int t" "(0::rat) < of_int (t + 1)"
    using assms by simp_all
  ultimately show ?thesis
    by (simp only: divide_le_eq pos_le_divide_eq times_divide_eq_left) (simp add: field_simps)
qed

lemma ratio_absent_step:
  fixes a t :: int
  assumes "0 \<le> a" "0 < t"
  shows "(of_int a / of_int (t + 1) :: rat) \<le> of_int a / of_int t"
proof -
  have "(0::rat) \<le> of_int a" "(0::rat) < of_int t" "(of_int t :: rat) \<le> of_int (t + 1)"
    using assms by simp_all
  then show ?thesis
    by (intro frac_le) simp_all
qed

text \<open>
  Claim C5. For every list of occurrences, appending one occurrence with status
  ATTENDED gives a \<open>percentage\<close> at least the original one, and appending one
  occurrence with status ABSENT gives a \<open>percentage\<close> at most the original one.
\<close>

theorem percentage_monotone:
  "(status e = ATTENDED \<longrightarrow>
      percentage (calculateStats es) \<le> percentage (calculateStats (es @ [e]))) \<and>
   (status e = ABSENT \<longrightarrow>
      percentage (calculateStats (es @ [e])) \<le> percentage (calculateStats es))"
proof -
  define a where "a = countStatus ATTENDED es"
  define t where "t = countStatus ATTENDED es + countStatus ABSENT es"
  have at: "0 \<le> a" "a \<le> t"
    unfolding a_def t_def by (simp_all add: countStatus_bounds)
  have old: "percentage (calculateStats es) = (if t = 0 then 0 else of_int a / of_int t * 100)"
    unfolding a_def t_def by (simp add: stats_percentage stats_fields)
  have att: "percentage (calculateStats es) \<le> percentage (calculateStats (es @ [e]))"
    if e: "status e = ATTENDED"
  proof -
    have new: "percentage (calculateStats (es @ [e])) = of_int (a + 1) / of_int (t + 1) * 100"
      using at e unfolding a_def t_def
      by (simp add: stats_percentage stats_fields countStatus_snoc)
    show ?thesis
    proof (cases "t = 0")
      case True
      have "(0::rat) \<le> of_int (a + 1) / of_int (t + 1)"
        using at by (intro divide_nonneg_nonneg) simp_all
      with True show ?thesis by (simp add: old new)
    next
      case False
      then have "0 < t" using at by linarith
      with at have "(of_int a / of_int t :: rat) \<le> of_int (a + 1) / of_int (t + 1)"
        by (intro ratio_attend_step)
      then have "(of_int a / of_int t * 100 :: rat) \<le> of_int (a + 1) / of_int (t + 1) * 100"
        by (rule mult_right_mono) simp
      with False show ?thesis by (simp only: old new if_False)
    qed
  qed
  have abs: "percentage (calculateStats (es @ [e])) \<le> percentage (calculateStats es)"
    if e: "status e = ABSENT"
  proof -
    have new: "percentage (calculateStats (es @ [e])) = of_int a / of_int (t + 1) * 100"
      using at e unfolding a_def t_def
      by (simp add: stats_percentage stats_fields countStatus_snoc)
    show ?thesis
    proof (cases "t = 0")
      case True
      with at have "a = 0" by linarith
      with True show ?thesis by (simp add: old new)
    next
      case False
      then have "0 < t" using at by linarith
      with at have "(of_int a / of_int (t + 1) :: rat) \<le> of_int a / of_int t"
        by (intro ratio_absent_step)
      then have "(of_int a / of_int (t + 1) * 100 :: rat) \<le> of_int a / of_int t * 100"
        by (rule mult_right_mono) simp
      with False show ?thesis by (simp only: old new if_False)
    qed
  qed
  from att abs show ?thesis by blast
qed

theorem percentage_monotone_witness:
  "status (sampleEvent ATTENDED) = ATTENDED \<and>
   percentage (calculateStats sampleTerm)
     \<le> percentage (calculateStats (sampleTerm @ [sampleEvent ATTENDED])) \<and>
   status (sampleEvent ABSENT) = ABSENT \<and>
   percentage (calculateStats (sampleTerm @ [sampleEvent ABSENT]))
     \<le> percentage (calculateStats sampleTerm)"
  using percentage_monotone [of "sampleEvent ATTENDED" sampleTerm]
        percentage_monotone [of "sampleEvent ABSENT" sampleTerm]
  by (simp add: sampleEvent_def)

text \<open>
  Claim C10, as stated, fails on the empty list: \<open>neededFor75\<close> is 0, which the
  sidebar shows as "Target Met", while \<open>percentage\<close> is 0 and so below 75.
\<close>

theorem target_met_counterexample:
  "neededFor75 (calculateStats []) = 0 \<and> \<not> 75 \<le> percentage (calculateStats [])"
  by (simp add: calculateStats_def zeroCounters_def)

text \<open>
  Claim C10, amended. For every list of occurrences, \<open>neededFor75 = 0\<close> if and only
  if \<open>4 * attended \<ge> 3 * total\<close> (which includes \<open>total = 0\<close>). Whenever \<open>total > 0\<close>
  this is equivalent to \<open>percentage \<ge> 75\<close>, so "Target Met" and a percentage of at
  least 75 coincide on every list with a settled occurrence. When \<open>total = 0\<close>,
  \<open>neededFor75\<close> is 0 and \<open>percentage\<close> is 0.
\<close>

theorem target_met_iff:
  "(neededFor75 (calculateStats es) = 0
      \<longleftrightarrow> 3 * total (calculateStats es) \<le> 4 * attended (calculateStats es)) \<and>
   (0 < total (calculateStats es) \<longrightarrow>
      (neededFor75 (calculateStats es) = 0 \<longleftrightarrow> 75 \<le> percentage (calculateStats es))) \<and>
   (total (calculateStats es) = 0 \<longrightarrow>
      neededFor75 (calculateStats es) = 0 \<and> percentage (calculateStats es) = 0)"
proof -
  define t where "t = total (calculateStats es)"
  define a where "a = attended (calculateStats es)"
  have at: "0 \<le> a" "a \<le> t"
    unfolding a_def t_def by (rule stats_attended_range)+
  have n: "neededFor75 (calculateStats es) = max 0 (3 * t - 4 * a)"
    unfolding t_def a_def by (rule stats_neededFor75)
  have p: "percentage (calculateStats es) = (if t = 0 then 0 else of_int a / of_int t * 100)"
    unfolding t_def a_def by (rule stats_percentage)
  have c1: "neededFor75 (calculateStats es) = 0 \<longleftrightarrow> 3 * t \<le> 4 * a"
    using n by auto
  have c2: "neededFor75 (calculateStats es) = 0 \<longleftrightarrow> 75 \<le> percentage (calculateStats es)"
    if pos: "0 < t"
  proof -
    have rpos: "(0::rat) < of_int t" using pos by simp
    have "(75 \<le> percentage (calculateStats es)) \<longleftrightarrow> (75::rat) \<le> of_int a / of_int t * 100"
      using pos by (simp add: p)
    also have "\<dots> \<longleftrightarrow> (75::rat) * of_int t \<le> of_int a * 100"
      using rpos by (simp add: pos_le_divide_eq)
    also have "\<dots> \<longleftrightarrow> (3::rat) * of_int t \<le> 4 * of_int a"
      by auto
    also have "\<dots> \<longleftrightarrow> (of_int (3 * t) :: rat) \<le> of_int (4 * a)"
      by (simp only: of_int_mult of_int_numeral)
    also have "\<dots> \<longleftrightarrow> 3 * t \<le> 4 * a"
      by (simp only: of_int_le_iff)
    finally show ?thesis using c1 by simp
  qed
  have c3: "neededFor75 (calculateStats es) = 0 \<and> percentage (calculateStats es) = 0"
    if "t = 0"
    using that at n p by simp
  from c1 c2 c3 show ?thesis
    unfolding t_def a_def by blast
qed

theorem target_met_iff_witness:
  "0 < total (calculateStats sampleTerm) \<and>
   neededFor75 (calculateStats sampleTerm) \<noteq> 0 \<and>
   \<not> 75 \<le> percentage (calculateStats sampleTerm) \<and>
   \<not> 3 * total (calculateStats sampleTerm) \<le> 4 * attended (calculateStats sampleTerm) \<and>
   total (calculateStats sampleCancelled) = 0 \<and>
   neededFor75 (calculateStats sampleCancelled) = 0 \<and>
   percentage (calculateStats sampleCancelled) = 0"
  using target_met_iff [of sampleTerm] target_met_iff [of sampleCancelled]
  by (simp add: sampleTerm_stats sampleCancelled_stats)

section \<open>Properties of persistence\<close>

text \<open>What a save followed by a load makes of each occurrence.\<close>

lemma reload_general:
  "loadEvents (saveEvents es) =
     map (\<lambda>e. e\<lparr>start := newDate (toJSON (start e)), end' := newDate (toJSON (end' e)),
                originalDate := map_option toJSON (originalDate e)\<rparr>) es"
  by (simp add: loadEvents_def saveEvents_def fixed_def jsonRecord_def)

text \<open>
  A collection whose \<open>start\<close> and \<open>end\<close> are valid dates and that has no
  \<open>originalDate\<close> comes back as it was saved.
\<close>

lemma reload_without_originalDate:
  assumes "\<forall>e \<in> set es. (\<exists>t. start e = DateObj t) \<and> (\<exists>t. end' e = DateObj t)
              \<and> originalDate e = None"
  shows "loadEvents (saveEvents es) = es"
proof -
  have "loadEvents (saveEvents es) = map (\<lambda>e. e) es"
    unfolding reload_general
  proof (rule map_cong [OF refl])
    fix e assume "e \<in> set es"
    with assms obtain t1 t2
      where "start e = DateObj t1" "end' e = DateObj t2" "originalDate e = None"
      by blast
    then show "e\<lparr>start := newDate (toJSON (start e)), end' := newDate (toJSON (end' e)),
                originalDate := map_option toJSON (originalDate e)\<rparr> = e"
      by simp
  qed
  then show ?thesis by simp
qed

text \<open>
  Claim C4 says that saving and reloading gives every field its original value,
  with \<open>start\<close>, \<open>end\<close> and \<open>originalDate\<close> rebuilt as dates. The load effect rebuilds
  \<open>start\<close> and \<open>end\<close> only: an occurrence saved with the date \<open>originalDate\<close> comes
  back with \<open>originalDate\<close> still the ISO string, so the reloaded collection differs
  from the saved one.
\<close>

theorem reload_originalDate_stays_string:
  "originalDate recurringEvent = Some (DateObj 1700000000000) \<and>
   loadEvents (saveEvents [recurringEvent])
     = [recurringEvent\<lparr>originalDate := Some (IsoString 1700000000000)\<rparr>] \<and>
   loadEvents (saveEvents [recurringEvent]) \<noteq> [recurringEvent]"
  by (simp add: reload_general recurringEvent_def sampleEvent_def)

section \<open>Properties of the attendance store\<close>

text \<open>
  Claim C6. For every prior store and every parse result, the import leaves
  exactly the prior occurrences followed by the new ones in order: the prior
  occurrences are the unchanged prefix, nothing is compared or dropped, and
  importing the same parse result twice appends it twice.
\<close>

theorem handleFileUpload_appends:
  "events (handleFileUpload parseICS (Some content) s) = events s @ parseICS content \<and>
   take (length (events s)) (events (handleFileUpload parseICS (Some content) s)) = events s \<and>
   drop (length (events s)) (events (handleFileUpload parseICS (Some content) s))
     = parseICS content \<and>
   events (handleFileUpload parseICS (Some content)
             (handleFileUpload parseICS (Some content) s))
     = events s @ parseICS content @ parseICS content"
  by (simp add: handleFileUpload_def)

theorem handleFileUpload_appends_witness:
  "events (handleFileUpload (\<lambda>content. [sampleEvent PENDING]) (Some ''BEGIN:VCALENDAR'')
             (handleFileUpload (\<lambda>content. [sampleEvent PENDING]) (Some ''BEGIN:VCALENDAR'')
                sampleState))
     = events sampleState @ [sampleEvent PENDING, sampleEvent PENDING] \<and>
   length (events (handleFileUpload (\<lambda>content. [sampleEvent PENDING])
                     (Some ''BEGIN:VCALENDAR'') sampleState)) = 3"
  using handleFileUpload_appends
          [of "\<lambda>content. [sampleEvent PENDING]" "''BEGIN:VCALENDAR''" sampleState]
  by (simp add: sampleState_def)

lemma replace_missing_id:
  "id updated \<notin> id ` set xs \<Longrightarrow>
     map (\<lambda>e. if id e = id updated then updated else e) xs = xs"
  by (induction xs) auto

text \<open>
  Claim C7. For every store and every updated record, the update keeps the
  length and the order of the store; at each position it puts the updated record
  where the occurrence has the updated record's id and leaves the occurrence as it
  is elsewhere. When no occurrence has that id, the store is unchanged.
\<close>

theorem handleUpdateEvent_replaces:
  "length (events (handleUpdateEvent updated s)) = length (events s) \<and>
   (\<forall>i < length (events s).
      events (handleUpdateEvent updated s) ! i
        = (if id (events s ! i) = id updated then updated else events s ! i)) \<and>
   (id updated \<notin> id ` set (events s) \<longrightarrow> events (handleUpdateEvent updated s) = events s)"
  by (simp add: handleUpdateEvent_def replace_missing_id)

theorem handleUpdateEvent_replaces_witness:
  "(1::nat) < length (events sampleState) \<and>
   events (handleUpdateEvent ((sampleEvent ATTENDED)\<lparr>id := ''e2''\<rparr>) sampleState) ! 1
     = (sampleEvent ATTENDED)\<lparr>id := ''e2''\<rparr> \<and>
   id ((sampleEvent ATTENDED)\<lparr>id := ''e9''\<rparr>) \<notin> id ` set (events sampleState) \<and>
   events (handleUpdateEvent ((sampleEvent ATTENDED)\<lparr>id := ''e9''\<rparr>) sampleState)
     = events sampleState"
  using handleUpdateEvent_replaces [of "(sampleEvent ATTENDED)\<lparr>id := ''e2''\<rparr>" sampleState]
        handleUpdateEvent_replaces [of "(sampleEvent ATTENDED)\<lparr>id := ''e9''\<rparr>" sampleState]
  by (simp add: sampleState_def sampleEvent_def)

section \<open>Properties of the display\<close>

text \<open>
  Claim C9, as stated, fails for an override whose \<open>overrideTitle\<close> is present but
  empty: \<open>isOverride\<close> is true, yet the title shown is \<open>title\<close>, not the (empty)
  \<open>overrideTitle\<close>.
\<close>

theorem displayTitle_empty_override_counterexample:
  "isOverride emptyOverrideEvent = Some True \<and>
   overrideTitle emptyOverrideEvent = Some [] \<and>
   displayTitle emptyOverrideEvent = ''Algebra'' \<and>
   displayTitle emptyOverrideEvent \<noteq> []"
  by (simp add: displayTitle_def emptyOverrideEvent_def sampleEvent_def)

text \<open>
  Claim C9, amended. The displayed title equals \<open>overrideTitle\<close> whenever
  \<open>isOverride\<close> is true and \<open>overrideTitle\<close> is present and not the empty string,
  and equals \<open>title\<close> otherwise.
\<close>

theorem displayTitle_prefers_override:
  "(isOverride event = Some True \<and> overrideTitle event = Some t \<and> t \<noteq> []
      \<longrightarrow> displayTitle event = t) \<and>
   (\<not> (isOverride event = Some True \<and> (\<exists>t. overrideTitle event = Some t \<and> t \<noteq> []))
      \<longrightarrow> displayTitle event = title event)"
  by (auto simp: displayTitle_def split: option.splits bool.splits)

theorem displayTitle_prefers_override_witness:
  "isOverride ((sampleEvent PENDING)\<lparr>overrideTitle := Some ''Lab'', isOverride := Some True\<rparr>)
     = Some True \<and>
   overrideTitle ((sampleEvent PENDING)\<lparr>overrideTitle := Some ''Lab'', isOverride := Some True\<rparr>)
     = Some ''Lab'' \<and> ''Lab'' \<noteq> [] \<and>
   displayTitle ((sampleEvent PENDING)\<lparr>overrideTitle := Some ''Lab'', isOverride := Some True\<rparr>)
     = ''Lab'' \<and>
   \<not> (isOverride (sampleEvent PENDING) = Some True
        \<and> (\<exists>t. overrideTitle (sampleEvent PENDING) = Some t \<and> t \<noteq> [])) \<and>
   displayTitle (sampleEvent PENDING) = title (sampleEvent PENDING)"
  using displayTitle_prefers_override
          [of "(sampleEvent PENDING)\<lparr>overrideTitle := Some ''Lab'', isOverride := Some True\<rparr>"
              "''Lab''"]
        displayTitle_prefers_override [of "sampleEvent PENDING"]
  by (simp add: sampleEvent_def)

section \<open>Properties of the calendar projector\<close>

lemma weekday_range: "0 \<le> weekday n" "weekday n < 7"
  by (simp_all add: weekday_def)

lemma daysInMonth_pos: "1 \<le> daysInMonth y m"
  by (simp add: daysInMonth_def)

lemma daysFromCivil_day: "daysFromCivil y m d = daysFromCivil y m 1 + (d - 1)"
  by (simp add: daysFromCivil_def Let_def)

lemma month_nonempty: "startOfMonth r \<le> endOfMonth r"
  using daysInMonth_pos [of "year r" "month r"]
        daysFromCivil_day [of "year r" "month r" "daysInMonth (year r) (month r)"]
  by (simp add: startOfMonth_def endOfMonth_def)

lemma grid_bounds: "startOfWeek (startOfMonth r) \<le> endOfWeek (endOfMonth r)"
  using month_nonempty [of r] weekday_range [of "startOfMonth r"]
        weekday_range [of "endOfMonth r"]
  by (simp add: startOfWeek_def endOfWeek_def)

lemma weekday_startOfWeek: "weekday (startOfWeek n) = 0"
  unfolding startOfWeek_def weekday_def by presburger

lemma weekday_endOfWeek: "weekday (endOfWeek n) = 6"
  unfolding endOfWeek_def weekday_def by presburger

lemma week_span:
  assumes "weekday a = 0" "weekday b = 6" "a \<le> b"
  shows "7 dvd nat (b - a + 1)"
proof -
  have "(7::int) dvd b - a + 1"
    using assms(1,2) unfolding weekday_def by presburger
  moreover have "int (nat (b - a + 1)) = b - a + 1"
    using assms(3) by simp
  ultimately have "int 7 dvd int (nat (b - a + 1))"
    by simp
  then show ?thesis
    by (simp only: int_dvd_int_iff)
qed

lemma projectMonth_length:
  "length (projectMonth r) = nat (endOfWeek (endOfMonth r) - startOfWeek (startOfMonth r) + 1)"
  by (simp add: projectMonth_def)

lemma projectMonth_hd: "date (hd (projectMonth r)) = startOfWeek (startOfMonth r)"
  using grid_bounds [of r]
  by (simp add: projectMonth_def upto_rec1 [of "startOfWeek (startOfMonth r)"])

lemma projectMonth_last: "date (last (projectMonth r)) = endOfWeek (endOfMonth r)"
  using grid_bounds [of r]
  by (simp add: projectMonth_def upto_rec2 [of "startOfWeek (startOfMonth r)"])

text \<open>
  The day numbering against known dates: 1970-01-01 is day 0, 2026-11-02 is a
  Monday, and July 2026 starts on a Wednesday, so its grid opens with three days
  of June that are flagged as outside the month.
\<close>

lemma calendar_checks:
  "daysFromCivil 1970 1 1 = 0"
  "weekday (daysFromCivil 2026 11 2) = 1"
  "weekday (startOfMonth \<lparr>year = 2026, month = 7, day = 15\<rparr>) = 3"
  "map inMonth (take 4 (projectMonth \<lparr>year = 2026, month = 7, day = 15\<rparr>))
     = [False, False, False, True]"
  by (simp_all add: daysFromCivil_def weekday_def startOfMonth_def endOfMonth_def
        startOfWeek_def endOfWeek_def projectMonth_def daysInMonth_def isLeapYear_def
        upto_rec1)

text \<open>
  Claim C8. For every reference date, \<open>projectMonth\<close> returns a non-empty sequence
  of days whose length is a multiple of 7. Its first entry is a Sunday, on or
  before the 1st of the reference month and less than a week before it; its last
  entry is a Saturday, on or after the last day of the reference month and less
  than a week after it.
\<close>

theorem projectMonth_complete_weeks:
  "projectMonth r \<noteq> [] \<and>
   7 dvd length (projectMonth r) \<and>
   weekday (date (hd (projectMonth r))) = 0 \<and>
   date (hd (projectMonth r)) \<le> startOfMonth r \<and>
   startOfMonth r - date (hd (projectMonth r)) < 7 \<and>
   weekday (date (last (projectMonth r))) = 6 \<and>
   endOfMonth r \<le> date (last (projectMonth r)) \<and>
   date (last (projectMonth r)) - endOfMonth r < 7"
proof -
  have ne: "projectMonth r \<noteq> []"
    using grid_bounds [of r] by (simp add: projectMonth_def)
  have len: "7 dvd length (projectMonth r)"
    unfolding projectMonth_length
    by (rule week_span [OF weekday_startOfWeek weekday_endOfWeek grid_bounds])
  have first: "date (hd (projectMonth r)) \<le> startOfMonth r"
    "startOfMonth r - date (hd (projectMonth r)) < 7"
    using weekday_range [of "startOfMonth r"]
    by (simp_all add: projectMonth_hd startOfWeek_def)
  have lst: "endOfMonth r \<le> date (last (projectMonth r))"
    "date (last (projectMonth r)) - endOfMonth r < 7"
    using weekday_range [of "endOfMonth r"]
    by (simp_all add: projectMonth_last endOfWeek_def)
  show ?thesis
    using ne len first lst
    by (simp add: projectMonth_hd projectMonth_last weekday_startOfWeek weekday_endOfWeek)
qed

theorem projectMonth_complete_weeks_witness:
  "length (projectMonth \<lparr>year = 2026, month = 7, day = 15\<rparr>) = 35 \<and>
   7 dvd length (projectMonth \<lparr>year = 2026, month = 7, day = 15\<rparr>) \<and>
   weekday (date (hd (projectMonth \<lparr>year = 2026, month = 7, day = 15\<rparr>))) = 0 \<and>
   startOfMonth \<lparr>year = 2026, month = 7, day = 15\<rparr>
     - date (hd (projectMonth \<lparr>year = 2026, month = 7, day = 15\<rparr>)) = 3 \<and>
   weekday (date (last (projectMonth \<lparr>year = 2026, month = 7, day = 15\<rparr>))) = 6 \<and>
   date (last (projectMonth \<lparr>year = 2026, month = 7, day = 15\<rparr>))
     - endOfMonth \<lparr>year = 2026, month = 7, day = 15\<rparr> = 1"
  using projectMonth_complete_weeks [of "\<lparr>year = 2026, month = 7, day = 15\<rparr>"]
  by (simp add: projectMonth_hd projectMonth_last projectMonth_length daysFromCivil_def
        weekday_def startOfMonth_def endOfMonth_def startOfWeek_def endOfWeek_def
        daysInMonth_def isLeapYear_def)

end
